theory Spec2Isabelle
  imports Complex_Main
begin

section \<open>Data model\<close>

text \<open>
  The repository is a set of static methods over pandas DataFrames
  (\<^verbatim>\<open>src/autoedaer/processors/data_processing.py\<close>). A DataFrame is modelled as its row
  index (a list of row labels) and its columns in order, each column a label with a
  list of cells. A cell is \<open>None\<close> for the missing marker (NaN) and \<open>Some v\<close> otherwise.
  Row and column labels live in one type, as in pandas, where both are Index entries.
  A Python exception is a value of type \<open>error\<close>, and a function that can raise returns
  \<open>error + result\<close>; messages are written without their quotation marks.
\<close>

datatype label = IntL int | StrL string

datatype error =
    ValueError string
  | KeyError "label list"
  | TypeError string
  | AttributeError string

type_synonym 'a series = "'a option list"

record 'a dataframe =
  df_index :: "label list"
  df_columns :: "(label \<times> 'a series) list"

text \<open>\<^verbatim>\<open>df.shape[0]\<close>: the number of rows, and \<^verbatim>\<open>df.columns\<close>: the column labels.\<close>

definition shape0 :: "'a dataframe \<Rightarrow> nat" where
  "shape0 df = length (df_index df)"

definition column_labels :: "'a dataframe \<Rightarrow> label list" where
  "column_labels df = map fst (df_columns df)"

text \<open>The invariant of the data model: all columns are as long as the row index.\<close>

definition wf_dataframe :: "'a dataframe \<Rightarrow> bool" where
  "wf_dataframe df = list_all (\<lambda>c. length (snd c) = shape0 df) (df_columns df)"

text \<open>\<^verbatim>\<open>df.loc[:, mask]\<close> with a boolean mask over the columns: the columns whose mask
  entry is true, in order; the row index is kept.\<close>

definition loc_columns :: "'a dataframe \<Rightarrow> bool list \<Rightarrow> 'a dataframe" where
  "loc_columns df keep = df\<lparr>df_columns := map fst (filter snd (zip (df_columns df) keep))\<rparr>"

section \<open>DataProcess.remove_constant_or_unique_columns\<close>

text \<open>
  \<^verbatim>\<open>return df.loc[:, ~df.nunique().isin([1, df.shape[0]])]\<close>

  \<^verbatim>\<open>nunique\<close> counts the distinct values of a column and, by its default
  \<^verbatim>\<open>dropna=True\<close>, leaves the missing marker out of the count.
\<close>

definition nunique :: "'a series \<Rightarrow> nat" where
  "nunique s = length (remdups (filter (\<lambda>c. c \<noteq> None) s))"

definition isin :: "nat \<Rightarrow> nat list \<Rightarrow> bool" where
  "isin n ns = (n \<in> set ns)"

definition remove_constant_or_unique_columns :: "'a dataframe \<Rightarrow> 'a dataframe" where
  "remove_constant_or_unique_columns df =
     loc_columns df (map (\<lambda>c. \<not> isin (nunique (snd c)) [1, shape0 df]) (df_columns df))"

definition one_row_missing :: "rat dataframe" where
  "one_row_missing = \<lparr>df_index = [IntL 0], df_columns = [(StrL ''a'', [None])]\<rparr>"

definition one_row_mixed :: "rat dataframe" where
  "one_row_mixed =
     \<lparr>df_index = [IntL 0], df_columns = [(StrL ''a'', [Some 7]), (StrL ''b'', [None])]\<rparr>"

section \<open>DataProcess.infer_numeric_dtype\<close>

text \<open>
  A numpy dtype and its \<^verbatim>\<open>kind\<close> character: \<open>i\<close> signed integer, \<open>u\<close> unsigned integer,
  \<open>f\<close> floating point, \<open>O\<close> object. The integer values of a column are unbounded ints,
  read from the column; for the other kinds only the dtype matters to this function.
\<close>

datatype dtype =
    Int8 | Int16 | Int32 | Int64
  | UInt8 | UInt16 | UInt32 | UInt64
  | Float32 | Float64
  | Object

fun kind :: "dtype \<Rightarrow> char" where
  "kind Int8 = CHR ''i''"
| "kind Int16 = CHR ''i''"
| "kind Int32 = CHR ''i''"
| "kind Int64 = CHR ''i''"
| "kind UInt8 = CHR ''u''"
| "kind UInt16 = CHR ''u''"
| "kind UInt32 = CHR ''u''"
| "kind UInt64 = CHR ''u''"
| "kind Float32 = CHR ''f''"
| "kind Float64 = CHR ''f''"
| "kind Object = CHR ''O''"

record typed_series =
  s_dtype :: dtype
  s_ints :: "int list"
  s_exact_in_float32 :: bool

text \<open>\<^verbatim>\<open>np.iinfo(t).min\<close> and \<^verbatim>\<open>np.iinfo(t).max\<close> of the four signed types the code names.\<close>

fun iinfo_min :: "dtype \<Rightarrow> int" where
  "iinfo_min Int8 = - 128"
| "iinfo_min Int16 = - 32768"
| "iinfo_min Int32 = - 2147483648"
| "iinfo_min Int64 = - 9223372036854775808"
| "iinfo_min _ = 0"

fun iinfo_max :: "dtype \<Rightarrow> int" where
  "iinfo_max Int8 = 127"
| "iinfo_max Int16 = 32767"
| "iinfo_max Int32 = 2147483647"
| "iinfo_max Int64 = 9223372036854775807"
| "iinfo_max _ = 0"

text \<open>
  \<^verbatim>\<open>series.min()\<close> and \<^verbatim>\<open>series.max()\<close>: of an empty column they are NaN (here \<open>None\<close>),
  and every comparison with NaN is false.
\<close>

definition series_min :: "typed_series \<Rightarrow> int option" where
  "series_min s = (if s_ints s = [] then None else Some (Min (set (s_ints s))))"

definition series_max :: "typed_series \<Rightarrow> int option" where
  "series_max s = (if s_ints s = [] then None else Some (Max (set (s_ints s))))"

definition nan_ge :: "int option \<Rightarrow> int \<Rightarrow> bool" where
  "nan_ge a b = (case a of None \<Rightarrow> False | Some v \<Rightarrow> b \<le> v)"

definition nan_le :: "int option \<Rightarrow> int \<Rightarrow> bool" where
  "nan_le a b = (case a of None \<Rightarrow> False | Some v \<Rightarrow> v \<le> b)"

text \<open>
  The function, branch for branch. The float test
  \<^verbatim>\<open>np.all(series.dropna() == series.dropna().astype(np.float32))\<close> is floating-point
  rounding; its outcome is carried by the column as \<open>s_exact_in_float32\<close>.
\<close>

definition infer_numeric_dtype :: "typed_series \<Rightarrow> dtype" where
  "infer_numeric_dtype series =
     (if kind (s_dtype series) \<in> set ''iu'' then
        (if nan_ge (series_min series) (iinfo_min Int8) \<and> nan_le (series_max series) (iinfo_max Int8)
           then Int8
         else if nan_ge (series_min series) (iinfo_min Int16) \<and> nan_le (series_max series) (iinfo_max Int16)
           then Int16
         else if nan_ge (series_min series) (iinfo_min Int32) \<and> nan_le (series_max series) (iinfo_max Int32)
           then Int32
         else if nan_ge (series_min series) (iinfo_min Int64) \<and> nan_le (series_max series) (iinfo_max Int64)
           then Int64
         else s_dtype series)
      else if kind (s_dtype series) = CHR ''f'' then
        (if s_exact_in_float32 series then Float32 else Float64)
      else s_dtype series)"

text \<open>The width in bits of a signed type, and what it is for a range to cover a column.\<close>

fun bits :: "dtype \<Rightarrow> nat" where
  "bits Int8 = 8"
| "bits Int16 = 16"
| "bits Int32 = 32"
| "bits Int64 = 64"
| "bits UInt8 = 8"
| "bits UInt16 = 16"
| "bits UInt32 = 32"
| "bits UInt64 = 64"
| "bits Float32 = 32"
| "bits Float64 = 64"
| "bits Object = 0"

definition signed_types :: "dtype list" where
  "signed_types = [Int8, Int16, Int32, Int64]"

definition covers :: "dtype \<Rightarrow> int list \<Rightarrow> bool" where
  "covers t vs = (iinfo_min t \<le> Min (set vs) \<and> Max (set vs) \<le> iinfo_max t)"

definition int_column :: "dtype \<Rightarrow> int list \<Rightarrow> typed_series" where
  "int_column t vs = \<lparr>s_dtype = t, s_ints = vs, s_exact_in_float32 = False\<rparr>"

section \<open>DataProcess.remove_duplicate_rows_by_columns\<close>

text \<open>
  \<^verbatim>\<open>return df.drop_duplicates(subset=columns, inplace=True)\<close>

  \<^verbatim>\<open>DataFrame.drop_duplicates\<close> begins with \<^verbatim>\<open>if self.empty: return self.copy()\<close>: on a
  frame with no rows or no columns it returns a copy at once, whatever \<open>inplace\<close> and
  \<open>subset\<close> are. Otherwise it asks \<^verbatim>\<open>DataFrame.duplicated\<close> for the rows to drop.
  \<^verbatim>\<open>duplicated\<close> raises a KeyError when \<open>subset\<close> names a label that is not a column;
  with an empty \<open>subset\<close> it has no column to unpack and raises a ValueError; otherwise it
  marks every row that agrees with an earlier row on all the columns of \<open>subset\<close> (missing
  cells compare equal to each other). \<^verbatim>\<open>drop_duplicates\<close> keeps the unmarked rows. With
  \<^verbatim>\<open>inplace=True\<close> it replaces the contents of the caller's object and returns \<open>None\<close>;
  otherwise it returns the new table and leaves the caller's object alone. A call is
  modelled by its return value together with the caller's table after the call.
\<close>

text \<open>\<^verbatim>\<open>df.empty\<close>: no rows or no columns.\<close>

definition df_empty :: "'a dataframe \<Rightarrow> bool" where
  "df_empty df = (df_index df = [] \<or> df_columns df = [])"

definition cell :: "'a dataframe \<Rightarrow> label \<Rightarrow> nat \<Rightarrow> 'a option" where
  "cell df c i = (case map_of (df_columns df) c of None \<Rightarrow> None | Some s \<Rightarrow> s ! i)"

definition row_key :: "'a dataframe \<Rightarrow> label list \<Rightarrow> nat \<Rightarrow> 'a option list" where
  "row_key df subset_cols i = map (\<lambda>c. cell df c i) subset_cols"

fun duplicated_from :: "'k list \<Rightarrow> 'k list \<Rightarrow> bool list" where
  "duplicated_from seen [] = []"
| "duplicated_from seen (k # ks) = (k \<in> set seen) # duplicated_from (k # seen) ks"

definition duplicated :: "'a dataframe \<Rightarrow> label list \<Rightarrow> error + bool list" where
  "duplicated df subset_cols =
     (if df_empty df then Inr []
      else if \<not> set subset_cols \<subseteq> set (column_labels df)
        then Inl (KeyError (filter (\<lambda>c. c \<notin> set (column_labels df)) subset_cols))
      else if subset_cols = []
        then Inl (ValueError ''not enough values to unpack (expected 2, got 0)'')
      else Inr (duplicated_from [] (map (row_key df subset_cols) [0..<shape0 df])))"

definition select_rows :: "bool list \<Rightarrow> 'x list \<Rightarrow> 'x list" where
  "select_rows keep xs = map fst (filter snd (zip xs keep))"

definition boolean_index :: "'a dataframe \<Rightarrow> bool list \<Rightarrow> 'a dataframe" where
  "boolean_index df keep =
     \<lparr>df_index = select_rows keep (df_index df),
      df_columns = map (\<lambda>c. (fst c, select_rows keep (snd c))) (df_columns df)\<rparr>"

definition drop_duplicates ::
  "'a dataframe \<Rightarrow> label list \<Rightarrow> bool \<Rightarrow> error + ('a dataframe option \<times> 'a dataframe)" where
  "drop_duplicates df subset_cols inplace =
     (if df_empty df then Inr (Some df, df)
      else
        (case duplicated df subset_cols of
           Inl e \<Rightarrow> Inl e
         | Inr dup \<Rightarrow>
             (let result = boolean_index df (map Not dup)
              in if inplace then Inr (None, result) else Inr (Some result, df))))"

definition remove_duplicate_rows_by_columns ::
  "'a dataframe \<Rightarrow> label list \<Rightarrow> error + ('a dataframe option \<times> 'a dataframe)" where
  "remove_duplicate_rows_by_columns df columns = drop_duplicates df columns True"

text \<open>Row \<open>i\<close> is a first occurrence when every earlier row differs from it on some listed
  column.\<close>

definition first_occurrence :: "'a dataframe \<Rightarrow> label list \<Rightarrow> nat \<Rightarrow> bool" where
  "first_occurrence df columns i =
     (\<forall>j<i. \<exists>c\<in>set columns. cell df c j \<noteq> cell df c i)"

definition people :: "rat dataframe" where
  "people =
     \<lparr>df_index = [IntL 0, IntL 1, IntL 2],
      df_columns = [(StrL ''a'', [Some 1, Some 1, Some 2]), (StrL ''b'', [Some 5, None, Some 7])]\<rparr>"

text \<open>A table with the same two columns and no rows.\<close>

definition no_rows :: "rat dataframe" where
  "no_rows = \<lparr>df_index = [], df_columns = [(StrL ''a'', []), (StrL ''b'', [])]\<rparr>"

section \<open>DataProcess.combine_dataframes\<close>

text \<open>
  The function either raises an error of its own or returns what one call into the
  library returns. The two library calls are kept as data, with the arguments the code
  passes: \<^verbatim>\<open>pd.merge(df1, df2, on=on, how=how)\<close> and
  \<^verbatim>\<open>pd.concat([df1, df2], axis=0, join='outer', ignore_index=True)\<close>.
  The test \<^verbatim>\<open>if on:\<close> is Python truthiness: false for \<open>None\<close> and for the empty list.
\<close>

datatype 'a pandas_call =
    Merge "'a dataframe" "'a dataframe" "label list" string
  | Concat "'a dataframe list"

datatype 'a outcome = Raise error | Return "'a pandas_call"

definition absent :: "label list option \<Rightarrow> bool" where
  "absent on = (on = None \<or> on = Some [])"

definition combine_dataframes ::
  "'a dataframe \<Rightarrow> 'a dataframe \<Rightarrow> label list option \<Rightarrow> string \<Rightarrow> string \<Rightarrow> 'a outcome" where
  "combine_dataframes df1 df2 on how direction =
     (if direction = ''horizontal'' then
        (case on of
           Some (c # cs) \<Rightarrow> Return (Merge df1 df2 (c # cs) how)
         | _ \<Rightarrow> Raise (ValueError ''on parameter must be specified for horizontal merge''))
      else if direction = ''vertical'' then Return (Concat [df1, df2])
      else Raise (ValueError ''Invalid direction. Choose vertical or horizontal''))"

section \<open>MissingValue: shared pieces\<close>

text \<open>
  \<^verbatim>\<open>columns = columns or df.columns\<close>: Python's \<open>or\<close> yields the right operand when the left
  one is \<open>None\<close> or an empty list.
\<close>

definition py_or :: "label list option \<Rightarrow> label list \<Rightarrow> label list" where
  "py_or columns default_columns =
     (case columns of Some (c # cs) \<Rightarrow> c # cs | _ \<Rightarrow> default_columns)"

definition map_columns :: "('a series \<Rightarrow> 'a series) \<Rightarrow> 'a dataframe \<Rightarrow> 'a dataframe" where
  "map_columns f df = df\<lparr>df_columns := map (\<lambda>c. (fst c, f (snd c))) (df_columns df)\<rparr>"

text \<open>\<^verbatim>\<open>Series.count()\<close>: the number of cells that are not missing.\<close>

definition count_valid :: "'a series \<Rightarrow> nat" where
  "count_valid s = length (filter (\<lambda>c. c \<noteq> None) s)"

section \<open>MissingValue.fill_na_forward_or_backward\<close>

text \<open>
  \<^verbatim>\<open>df.fillna(method='ffill')\<close> walks down each column carrying the last value seen and
  writes it into every missing cell; a missing cell before the first value stays
  missing. \<^verbatim>\<open>method='bfill'\<close> is the same walk from the last row up. (This is the
  \<^verbatim>\<open>method\<close> keyword of the pandas versions that accept it.)
\<close>

fun ffill_from :: "'a option \<Rightarrow> 'a series \<Rightarrow> 'a series" where
  "ffill_from prev [] = []"
| "ffill_from prev (None # cs) = prev # ffill_from prev cs"
| "ffill_from prev (Some v # cs) = Some v # ffill_from (Some v) cs"

definition ffill :: "'a series \<Rightarrow> 'a series" where
  "ffill s = ffill_from None s"

definition bfill :: "'a series \<Rightarrow> 'a series" where
  "bfill s = rev (ffill_from None (rev s))"

definition fillna_method :: "'a dataframe \<Rightarrow> string \<Rightarrow> 'a dataframe" where
  "fillna_method df method =
     (if method = ''ffill'' then map_columns ffill df else map_columns bfill df)"

definition fill_na_forward_or_backward ::
  "'a dataframe \<Rightarrow> label list option \<Rightarrow> string \<Rightarrow> error + 'a dataframe" where
  "fill_na_forward_or_backward df columns method =
     (if method \<notin> {''ffill'', ''bfill''} then Inl (ValueError ''Invalid method. Choose ffill, bfill'')
      else
        (let columns = py_or columns (column_labels df)
         in Inr (fillna_method df method)))"

text \<open>The last cell of a list that is not missing, if there is one.\<close>

fun last_valid :: "'a series \<Rightarrow> 'a option" where
  "last_valid [] = None"
| "last_valid (c # cs) = (case last_valid cs of None \<Rightarrow> c | Some v \<Rightarrow> Some v)"

section \<open>MissingValue.fill_na_by_custom_value\<close>

text \<open>
  \<^verbatim>\<open>return df.fillna(value)\<close>: with \<open>value=None\<close> (and no method) pandas raises a
  ValueError; with a scalar it writes the scalar into every missing cell of every
  column.
\<close>

definition fillna_value :: "'a dataframe \<Rightarrow> 'a option \<Rightarrow> error + 'a dataframe" where
  "fillna_value df val =
     (case val of
        None \<Rightarrow> Inl (ValueError ''Must specify a fill value or method'')
      | Some v \<Rightarrow> Inr (map_columns (map (\<lambda>c. case c of None \<Rightarrow> Some v | Some w \<Rightarrow> Some w)) df))"

definition fill_na_by_custom_value ::
  "'a dataframe \<Rightarrow> label list option \<Rightarrow> 'a option \<Rightarrow> error + 'a dataframe" where
  "fill_na_by_custom_value df columns val =
     (let columns = py_or columns (column_labels df)
      in fillna_value df val)"

section \<open>MissingValue.fill_na_by_interpolate\<close>

text \<open>
  \<^verbatim>\<open>return df.interpolate(method=method)\<close>: the interpolation of one column is numerical
  curve fitting and is taken as a parameter; the frame method applies it to every
  column.
\<close>

definition fill_na_by_interpolate ::
  "(string \<Rightarrow> 'a series \<Rightarrow> 'a series) \<Rightarrow> 'a dataframe \<Rightarrow> label list option \<Rightarrow> string \<Rightarrow>
     error + 'a dataframe" where
  "fill_na_by_interpolate interpolate df columns method =
     (if method \<notin> {''linear'', ''quadratic'', ''cubic''}
      then Inl (ValueError ''Invalid method. Choose linear, quadratic, or cubic'')
      else
        (let columns = py_or columns (column_labels df)
         in Inr (map_columns (interpolate method) df)))"

section \<open>MissingValue.remove_missing_columns\<close>

text \<open>
  \<^verbatim>\<open>int(x)\<close> of a Python float truncates towards zero. The rate is an exact rational here;
  the floating-point rounding of \<^verbatim>\<open>df.shape[0] * (1 - max_missing_rate)\<close> is not modelled.
\<close>

definition py_int :: "rat \<Rightarrow> int" where
  "py_int x = (if 0 \<le> x then \<lfloor>x\<rfloor> else \<lceil>x\<rceil>)"

text \<open>
  \<^verbatim>\<open>df.dropna(axis=1, thresh=t, subset=labels)\<close> drops columns. Its \<open>subset\<close> holds labels
  along the other axis, so with \<^verbatim>\<open>axis=1\<close> they are row labels: pandas looks them up in
  the row index, raises a KeyError for those it does not find, counts the non-missing
  cells of every column within the rows found, and keeps the columns whose count is at
  least \<open>t\<close>.
\<close>

definition positions :: "label list \<Rightarrow> label \<Rightarrow> nat list" where
  "positions idx l = filter (\<lambda>i. idx ! i = l) [0..<length idx]"

definition dropna_columns :: "'a dataframe \<Rightarrow> int \<Rightarrow> label list \<Rightarrow> error + 'a dataframe" where
  "dropna_columns df thresh subset_labels =
     (if set subset_labels \<subseteq> set (df_index df) then
        (let rows = concat (map (positions (df_index df)) subset_labels)
         in Inr (loc_columns df
              (map (\<lambda>c. thresh \<le> int (count_valid (map (\<lambda>i. snd c ! i) rows))) (df_columns df))))
      else Inl (KeyError (filter (\<lambda>l. l \<notin> set (df_index df)) subset_labels)))"

definition remove_missing_columns ::
  "'a dataframe \<Rightarrow> label list option \<Rightarrow> rat \<Rightarrow> error + 'a dataframe" where
  "remove_missing_columns df columns max_missing_rate =
     (if \<not> (0 \<le> max_missing_rate \<and> max_missing_rate \<le> 1)
      then Inl (ValueError ''max_missing_rate must be between 0 and 1'')
      else
        (let columns = py_or columns (column_labels df)
         in if max_missing_rate = 1 then Inr df
            else
              (let min_non_missing = py_int (of_nat (shape0 df) * (1 - max_missing_rate))
               in dropna_columns df min_non_missing columns)))"

text \<open>Ten rows labelled 0 to 9 and one column \<open>a\<close> with three missing cells.\<close>

definition ten_rows :: "rat dataframe" where
  "ten_rows =
     \<lparr>df_index = map IntL [0, 1, 2, 3, 4, 5, 6, 7, 8, 9],
      df_columns =
        [(StrL ''a'',
          [Some 1, Some 2, Some 3, Some 4, Some 5, Some 6, Some 7, None, None, None])]\<rparr>"

text \<open>
  Three rows and three columns that carry the same labels 0, 1, 2, so that the default
  subset (all column labels) names every row; column 0 has one value in three cells.
\<close>

definition three_by_three :: "rat dataframe" where
  "three_by_three =
     \<lparr>df_index = [IntL 0, IntL 1, IntL 2],
      df_columns =
        [(IntL 0, [Some 1, None, None]),
         (IntL 1, [Some 1, Some 2, Some 3]),
         (IntL 2, [None, None, None])]\<rparr>"

section \<open>MissingValue.fill_na_by_statistics\<close>

text \<open>
  \<^verbatim>\<open>df.mean()\<close> and \<^verbatim>\<open>df.median()\<close> give one number per column, computed over the cells that
  are not missing (NaN when there are none); \<^verbatim>\<open>df.fillna(series)\<close> writes, in each column,
  the number found under the column's label into the missing cells. \<^verbatim>\<open>df.mode()\<close> is a
  table: row \<open>i\<close> holds each column's \<open>i\<close>-th smallest most frequent value, padded with
  missing cells; \<^verbatim>\<open>df.fillna(table)\<close> fills a missing cell from the cell of the other
  table with the same row label and column label. Cells are exact rationals.
\<close>

definition valid_values :: "'a series \<Rightarrow> 'a list" where
  "valid_values s = concat (map (\<lambda>c. case c of None \<Rightarrow> [] | Some v \<Rightarrow> [v]) s)"

definition series_mean :: "rat series \<Rightarrow> rat option" where
  "series_mean s =
     (let vs = valid_values s
      in if vs = [] then None else Some (sum_list vs / of_nat (length vs)))"

definition series_median :: "rat series \<Rightarrow> rat option" where
  "series_median s =
     (let vs = sort (valid_values s); n = length vs
      in if n = 0 then None
         else if odd n then Some (vs ! (n div 2))
         else Some ((vs ! (n div 2 - 1) + vs ! (n div 2)) / 2))"

definition series_mode :: "rat series \<Rightarrow> rat list" where
  "series_mode s =
     (let vs = valid_values s; ds = sort (remdups vs);
          m = fold max (map (count_list vs) ds) 0
      in filter (\<lambda>v. count_list vs v = m) ds)"

definition df_mode :: "rat dataframe \<Rightarrow> rat dataframe" where
  "df_mode df =
     (let ms = map (\<lambda>c. (fst c, series_mode (snd c))) (df_columns df);
          k = fold max (map (\<lambda>c. length (snd c)) ms) 0
      in \<lparr>df_index = map (\<lambda>i. IntL (int i)) [0..<k],
          df_columns = map (\<lambda>c. (fst c, map Some (snd c) @ replicate (k - length (snd c)) None)) ms\<rparr>)"

definition fill_cells :: "'a \<Rightarrow> 'a series \<Rightarrow> 'a series" where
  "fill_cells v s = map (\<lambda>c. case c of None \<Rightarrow> Some v | Some w \<Rightarrow> Some w) s"

definition fillna_series :: "'a dataframe \<Rightarrow> (label \<times> 'a option) list \<Rightarrow> 'a dataframe" where
  "fillna_series df stats =
     df\<lparr>df_columns :=
       map (\<lambda>c. (fst c, case map_of stats (fst c) of Some (Some v) \<Rightarrow> fill_cells v (snd c) | _ \<Rightarrow> snd c))
         (df_columns df)\<rparr>"

definition frame_at :: "'a dataframe \<Rightarrow> label \<Rightarrow> label \<Rightarrow> 'a option" where
  "frame_at other r c = (case positions (df_index other) r of [] \<Rightarrow> None | i # _ \<Rightarrow> cell other c i)"

definition fillna_frame :: "'a dataframe \<Rightarrow> 'a dataframe \<Rightarrow> 'a dataframe" where
  "fillna_frame df other =
     df\<lparr>df_columns :=
       map (\<lambda>c. (fst c,
              map (\<lambda>rx. case snd rx of None \<Rightarrow> frame_at other (fst rx) (fst c) | Some w \<Rightarrow> Some w)
                (zip (df_index df) (snd c))))
         (df_columns df)\<rparr>"

definition fill_na_by_statistics ::
  "rat dataframe \<Rightarrow> label list option \<Rightarrow> string \<Rightarrow> error + rat dataframe" where
  "fill_na_by_statistics df columns method =
     (if method \<notin> {''mean'', ''median'', ''mode''}
      then Inl (ValueError ''Invalid method. Choose mean, median, or mode'')
      else
        (let columns = py_or columns (column_labels df)
         in if method = ''median''
              then Inr (fillna_series df (map (\<lambda>c. (fst c, series_median (snd c))) (df_columns df)))
            else if method = ''mode'' then Inr (fillna_frame df (df_mode df))
            else Inr (fillna_series df (map (\<lambda>c. (fst c, series_mean (snd c))) (df_columns df)))))"

section \<open>MissingValue.fill_na_by_rolling\<close>

text \<open>
  \<^verbatim>\<open>return df[columns].fillna(df.rolling(window=window_size, center=center).transform(method))\<close>

  \<^verbatim>\<open>df[columns]\<close> raises a KeyError for a label that is not a column. \<^verbatim>\<open>df.rolling\<close> refuses
  a negative window. The window object it returns has aggregations (mean, median, ...)
  but no attribute \<open>transform\<close>: looking up an unknown attribute on it yields the window
  over the column of that name when there is such a column (an object that cannot be
  called), and raises an AttributeError otherwise.
\<close>

definition getitem_columns :: "'a dataframe \<Rightarrow> label list \<Rightarrow> error + 'a dataframe" where
  "getitem_columns df columns =
     (if set columns \<subseteq> set (column_labels df)
      then Inr (df\<lparr>df_columns :=
             concat (map (\<lambda>l. case map_of (df_columns df) l of None \<Rightarrow> [] | Some s \<Rightarrow> [(l, s)]) columns)\<rparr>)
      else Inl (KeyError (filter (\<lambda>l. l \<notin> set (column_labels df)) columns)))"

datatype 'a rolling_window = Rolling "'a dataframe" int bool

definition rolling :: "'a dataframe \<Rightarrow> int \<Rightarrow> bool \<Rightarrow> error + 'a rolling_window" where
  "rolling df window center =
     (if window < 0 then Inl (ValueError ''window must be an integer 0 or greater'')
      else Inr (Rolling df window center))"

definition rolling_transform :: "'a rolling_window \<Rightarrow> string \<Rightarrow> error + 'a dataframe" where
  "rolling_transform r method =
     (case r of Rolling df window center \<Rightarrow>
        if StrL ''transform'' \<in> set (column_labels df)
        then Inl (TypeError ''Rolling object is not callable'')
        else Inl (AttributeError ''Rolling object has no attribute transform''))"

definition fill_na_by_rolling ::
  "'a dataframe \<Rightarrow> label list option \<Rightarrow> string \<Rightarrow> int option \<Rightarrow> bool \<Rightarrow> error + 'a dataframe" where
  "fill_na_by_rolling df columns method window_size center =
     (if method \<notin> {''mean'', ''median'', ''mode''}
      then Inl (ValueError ''Invalid method. Choose mean, median, or mode'')
      else
        (let columns = py_or columns (column_labels df);
             window_size = (case window_size of
                              None \<Rightarrow> int (shape0 df)
                            | Some w \<Rightarrow> if w = 0 then int (shape0 df) else w)
         in case getitem_columns df columns of
              Inl e \<Rightarrow> Inl e
            | Inr selected \<Rightarrow>
                (case rolling df window_size center of
                   Inl e \<Rightarrow> Inl e
                 | Inr r \<Rightarrow>
                     (case rolling_transform r method of
                        Inl e \<Rightarrow> Inl e
                      | Inr other \<Rightarrow> Inr (fillna_frame selected other)))))"

definition two_columns :: "rat dataframe" where
  "two_columns =
     \<lparr>df_index = [IntL 0, IntL 1, IntL 2],
      df_columns = [(StrL ''a'', [Some 1, None, Some 3]), (StrL ''b'', [None, Some 2, Some 4])]\<rparr>"

section \<open>DataProcess.convert_data_type\<close>

text \<open>
  The casts belong to pandas and are parameters: \<open>astype\<close> for \<^verbatim>\<open>series.astype(dtype)\<close>
  and \<open>to_datetime\<close> for \<^verbatim>\<open>pd.to_datetime(series, infer_datetime_format=True,
  errors='coerce')\<close>; each returns a column or raises. \<^verbatim>\<open>df[col]\<close> raises a KeyError when
  the label is not a column; \<^verbatim>\<open>df[col] = s\<close> replaces the column of that label, or
  appends one.
\<close>

record 'a pandas =
  astype :: "string \<Rightarrow> 'a series \<Rightarrow> error + 'a series"
  to_datetime :: "'a series \<Rightarrow> error + 'a series"

definition getitem :: "'a dataframe \<Rightarrow> label \<Rightarrow> error + 'a series" where
  "getitem df col = (case map_of (df_columns df) col of None \<Rightarrow> Inl (KeyError [col]) | Some s \<Rightarrow> Inr s)"

definition setitem :: "'a dataframe \<Rightarrow> label \<Rightarrow> 'a series \<Rightarrow> 'a dataframe" where
  "setitem df col s =
     (if col \<in> set (column_labels df)
      then df\<lparr>df_columns := map (\<lambda>c. if fst c = col then (col, s) else c) (df_columns df)\<rparr>
      else df\<lparr>df_columns := df_columns df @ [(col, s)]\<rparr>)"

text \<open>
  \<^verbatim>\<open>.apply(DataProcess.infer_numeric_dtype)\<close>: \<^verbatim>\<open>Series.apply\<close> calls the function on each
  cell in turn, and of an empty column it returns the empty column without a call. The
  cell it passes is a plain Python number, not a column: \<open>infer_numeric_dtype\<close> begins by
  reading \<^verbatim>\<open>series.dtype\<close>, which a number does not have, so the call on a cell raises an
  AttributeError before any branch is taken.
\<close>

definition infer_numeric_dtype_cell :: "'a option \<Rightarrow> error + 'a option" where
  "infer_numeric_dtype_cell x = Inl (AttributeError ''object has no attribute dtype'')"

fun series_apply :: "('a option \<Rightarrow> error + 'a option) \<Rightarrow> 'a series \<Rightarrow> error + 'a series" where
  "series_apply f [] = Inr []"
| "series_apply f (x # xs) =
     (case f x of
        Inl e \<Rightarrow> Inl e
      | Inr y \<Rightarrow> (case series_apply f xs of Inl e \<Rightarrow> Inl e | Inr ys \<Rightarrow> Inr (y # ys)))"

text \<open>The right-hand side of the assignment in the three branches, given the column.\<close>

definition convert_series :: "'a pandas \<Rightarrow> string \<Rightarrow> 'a series \<Rightarrow> error + 'a series" where
  "convert_series pd dtype s =
     (if dtype \<in> {''int'', ''float''} then
        (case astype pd dtype s of
           Inl e \<Rightarrow> Inl e
         | Inr t \<Rightarrow> series_apply infer_numeric_dtype_cell t)
      else if dtype = ''datetime'' then to_datetime pd s
      else astype pd dtype s)"

definition convert_column :: "'a pandas \<Rightarrow> 'a dataframe \<Rightarrow> label \<Rightarrow> string \<Rightarrow> error + 'a series" where
  "convert_column pd df col dtype =
     (case getitem df col of Inl e \<Rightarrow> Inl e | Inr s \<Rightarrow> convert_series pd dtype s)"

text \<open>
  The loop. The result is what the call returns or raises, paired with the columns for
  which the failure message was printed, in order. Only a ValueError is caught.
\<close>

fun convert_data_type ::
  "'a pandas \<Rightarrow> 'a dataframe \<Rightarrow> label list \<Rightarrow> string \<Rightarrow> (error + 'a dataframe) \<times> label list" where
  "convert_data_type pd df [] dtype = (Inr df, [])"
| "convert_data_type pd df (col # cols) dtype =
     (case convert_column pd df col dtype of
        Inr s \<Rightarrow> convert_data_type pd (setitem df col s) cols dtype
      | Inl (ValueError msg) \<Rightarrow>
          (case convert_data_type pd df cols dtype of (r, printed) \<Rightarrow> (r, col # printed))
      | Inl e \<Rightarrow> (Inl e, []))"




text \<open>
  A stand-in for the casts, for concrete runs. A cast to \<open>int\<close> or \<open>int64\<close> raises a
  ValueError on a column with a missing cell and truncates the other columns; a cast to
  \<open>float\<close> or \<open>str\<close> returns the column; any other dtype name is not understood
  (TypeError).
\<close>

definition sample_pandas :: "rat pandas" where
  "sample_pandas =
     \<lparr>astype = (\<lambda>dtype s.
         if dtype \<in> {''int'', ''int64''} then
           (if None \<in> set s then Inl (ValueError ''cannot convert NaN to integer'')
            else Inr (map (map_option (\<lambda>v. of_int (py_int v))) s))
         else if dtype \<in> {''float'', ''str''} then Inr s
         else Inl (TypeError ''data type not understood'')),
      to_datetime = Inr\<rparr>"

section \<open>Properties of remove_constant_or_unique_columns\<close>

lemma loc_columns_mask:
  "map fst (filter snd (zip xs (map P xs))) = filter P xs"
  by (induction xs) auto

lemma remove_constant_or_unique_columns_filter:
  "remove_constant_or_unique_columns df =
     df\<lparr>df_columns := filter (\<lambda>c. \<not> isin (nunique (snd c)) [1, shape0 df]) (df_columns df)\<rparr>"
  by (simp add: remove_constant_or_unique_columns_def loc_columns_def loc_columns_mask)

lemma shape0_remove_constant_or_unique_columns:
  "shape0 (remove_constant_or_unique_columns df) = shape0 df"
  by (simp add: remove_constant_or_unique_columns_filter shape0_def)

text \<open>
  Claim C9. Applying \<open>remove_constant_or_unique_columns\<close> twice yields the same table as
  applying it once: the row count is untouched by the first pass, so every column that
  survived it survives the second one.
\<close>

theorem remove_constant_or_unique_columns_idempotent:
  "remove_constant_or_unique_columns (remove_constant_or_unique_columns df) =
     remove_constant_or_unique_columns df"
proof -
  let ?r = "remove_constant_or_unique_columns df"
  have n: "shape0 ?r = shape0 df"
    by (rule shape0_remove_constant_or_unique_columns)
  have "remove_constant_or_unique_columns ?r =
      ?r\<lparr>df_columns := filter (\<lambda>c. \<not> isin (nunique (snd c)) [1, shape0 df]) (df_columns ?r)\<rparr>"
    by (simp only: remove_constant_or_unique_columns_filter [of ?r] n)
  also have "\<dots> = ?r"
    by (simp add: remove_constant_or_unique_columns_filter)
  finally show ?thesis .
qed

lemma nunique_single: "nunique [c] = (if c = None then 0 else 1)"
  by (simp add: nunique_def)

lemma one_row_series: "length s = Suc 0 \<Longrightarrow> \<exists>c. s = [c]"
  by (cases s) auto

text \<open>
  Claim C10, as the code has it. On a table with exactly one row, a column whose single
  cell holds a value has one distinct value and is dropped; a column whose single cell
  is missing has zero distinct values (the missing marker is not counted), which is
  neither 1 nor the row count, and is kept. The result holds exactly the columns whose
  only cell is missing.
\<close>

theorem remove_constant_or_unique_columns_one_row:
  assumes "shape0 df = 1" and "wf_dataframe df"
  shows "df_columns (remove_constant_or_unique_columns df) =
           filter (\<lambda>c. snd c = [None]) (df_columns df)"
proof -
  have "\<not> isin (nunique (snd c)) [1, shape0 df] \<longleftrightarrow> snd c = [None]"
    if "c \<in> set (df_columns df)" for c
  proof -
    from that assms have "length (snd c) = Suc 0"
      by (simp add: wf_dataframe_def list_all_iff)
    then obtain x where "snd c = [x]"
      using one_row_series by blast
    then show ?thesis
      using assms(1) by (simp add: isin_def nunique_single)
  qed
  then have "filter (\<lambda>c. \<not> isin (nunique (snd c)) [1, shape0 df]) (df_columns df) =
      filter (\<lambda>c. snd c = [None]) (df_columns df)"
    by (intro filter_cong) auto
  then show ?thesis
    by (simp add: remove_constant_or_unique_columns_filter)
qed

theorem remove_constant_or_unique_columns_one_row_witness:
  "shape0 one_row_mixed = 1 \<and> wf_dataframe one_row_mixed \<and>
   df_columns (remove_constant_or_unique_columns one_row_mixed) = [(StrL ''b'', [None])]"
proof -
  have a: "shape0 one_row_mixed = 1"
    by (simp add: one_row_mixed_def shape0_def)
  have b: "wf_dataframe one_row_mixed"
    by (simp add: one_row_mixed_def wf_dataframe_def shape0_def)
  show ?thesis
    using a b remove_constant_or_unique_columns_one_row [OF a b]
    by (simp add: one_row_mixed_def)
qed

theorem remove_constant_or_unique_columns_one_row_counterexample:
  "shape0 one_row_missing = 1 \<and> wf_dataframe one_row_missing \<and>
   df_columns (remove_constant_or_unique_columns one_row_missing) \<noteq> []"
  by (simp add: one_row_missing_def shape0_def wf_dataframe_def
      remove_constant_or_unique_columns_def loc_columns_def isin_def nunique_def)

section \<open>Properties of infer_numeric_dtype\<close>


lemma infer_int_kind:
  assumes "kind (s_dtype s) \<in> set ''iu''" and "s_ints s \<noteq> []"
  shows "infer_numeric_dtype s =
    (if covers Int8 (s_ints s) then Int8 else if covers Int16 (s_ints s) then Int16
     else if covers Int32 (s_ints s) then Int32 else if covers Int64 (s_ints s) then Int64
     else s_dtype s)"
  using assms
  by (simp add: infer_numeric_dtype_def covers_def series_min_def series_max_def nan_ge_def nan_le_def)

lemma covers_mono:
  "vs \<noteq> [] \<Longrightarrow> covers Int8 vs \<Longrightarrow> covers Int16 vs"
  "vs \<noteq> [] \<Longrightarrow> covers Int16 vs \<Longrightarrow> covers Int32 vs"
  "vs \<noteq> [] \<Longrightarrow> covers Int32 vs \<Longrightarrow> covers Int64 vs"
  by (auto simp: covers_def)

text \<open>
  Claim C2, as the code has it. For an integer-kind column that is not empty and whose
  values lie in the 64-bit signed range (every signed column does), the result is one of
  the four signed types, its range covers the column's minimum and maximum, and no
  narrower signed type does. An integer-kind column outside that case (an unsigned
  64-bit column with a value above the signed 64-bit maximum, or an empty column, whose
  minimum is NaN) falls through every branch and keeps its own dtype. The comparisons
  are exact integer comparisons. The two columns of the specification select the 8-bit
  and the 32-bit type.
\<close>

theorem infer_numeric_dtype_smallest_signed:
  "(kind (s_dtype s) \<in> set ''iu'' \<and> s_ints s \<noteq> [] \<and> covers Int64 (s_ints s) \<longrightarrow>
      infer_numeric_dtype s \<in> set signed_types \<and> covers (infer_numeric_dtype s) (s_ints s) \<and>
      (\<forall>t \<in> set signed_types. covers t (s_ints s) \<longrightarrow> bits (infer_numeric_dtype s) \<le> bits t))
   \<and> (kind (s_dtype s) \<in> set ''iu'' \<and> (s_ints s = [] \<or> \<not> covers Int64 (s_ints s)) \<longrightarrow>
        infer_numeric_dtype s = s_dtype s)
   \<and> infer_numeric_dtype (int_column Int64 [- 5, 0, 100]) = Int8
   \<and> infer_numeric_dtype (int_column Int64 [- 5, 0, 40000]) = Int32"
proof (intro conjI impI)
  assume a: "kind (s_dtype s) \<in> set ''iu'' \<and> s_ints s \<noteq> [] \<and> covers Int64 (s_ints s)"
  then have r: "infer_numeric_dtype s =
    (if covers Int8 (s_ints s) then Int8 else if covers Int16 (s_ints s) then Int16
     else if covers Int32 (s_ints s) then Int32 else Int64)"
    by (simp add: infer_int_kind)
  show "infer_numeric_dtype s \<in> set signed_types"
    by (simp add: r signed_types_def)
  show "covers (infer_numeric_dtype s) (s_ints s)"
    using a by (simp add: r)
  show "\<forall>t \<in> set signed_types. covers t (s_ints s) \<longrightarrow> bits (infer_numeric_dtype s) \<le> bits t"
    using a covers_mono [of "s_ints s"] by (auto simp: r signed_types_def)
next
  assume a: "kind (s_dtype s) \<in> set ''iu'' \<and> (s_ints s = [] \<or> \<not> covers Int64 (s_ints s))"
  show "infer_numeric_dtype s = s_dtype s"
  proof (cases "s_ints s = []")
    case True
    with a show ?thesis
      by (simp add: infer_numeric_dtype_def series_min_def nan_ge_def)
  next
    case False
    with a covers_mono [of "s_ints s"] show ?thesis
      by (auto simp: infer_int_kind)
  qed
next
  show "infer_numeric_dtype (int_column Int64 [- 5, 0, 100]) = Int8"
    by (simp add: infer_numeric_dtype_def int_column_def series_min_def series_max_def nan_ge_def nan_le_def)
  show "infer_numeric_dtype (int_column Int64 [- 5, 0, 40000]) = Int32"
    by (simp add: infer_numeric_dtype_def int_column_def series_min_def series_max_def nan_ge_def nan_le_def)
qed

theorem infer_numeric_dtype_smallest_signed_witness:
  "infer_numeric_dtype (int_column Int32 [- 200, 300]) \<in> set signed_types \<and>
   covers (infer_numeric_dtype (int_column Int32 [- 200, 300])) [- 200, 300] \<and>
   bits (infer_numeric_dtype (int_column Int32 [- 200, 300])) \<le> 16 \<and>
   infer_numeric_dtype (int_column UInt64 [18446744073709551615]) = UInt64"
proof -
  let ?c = "int_column Int32 [- 200, 300]"
  let ?u = "int_column UInt64 [18446744073709551615]"
  have a: "kind (s_dtype ?c) \<in> set ''iu'' \<and> s_ints ?c \<noteq> [] \<and> covers Int64 (s_ints ?c)"
    by (simp add: int_column_def covers_def)
  have b: "kind (s_dtype ?u) \<in> set ''iu'' \<and> (s_ints ?u = [] \<or> \<not> covers Int64 (s_ints ?u))"
    by (simp add: int_column_def covers_def)
  have c: "Int16 \<in> set signed_types" "covers Int16 (s_ints ?c)"
    by (simp_all add: signed_types_def int_column_def covers_def)
  have v: "s_ints ?c = [- 200, 300]"
    by (simp add: int_column_def)
  from a infer_numeric_dtype_smallest_signed [of ?c]
  have r: "infer_numeric_dtype ?c \<in> set signed_types"
    "covers (infer_numeric_dtype ?c) (s_ints ?c)"
    "\<forall>t \<in> set signed_types. covers t (s_ints ?c) \<longrightarrow> bits (infer_numeric_dtype ?c) \<le> bits t"
    by blast+
  from r(3) c have m: "bits (infer_numeric_dtype ?c) \<le> bits Int16"
    by blast
  from b infer_numeric_dtype_smallest_signed [of ?u]
  have u: "infer_numeric_dtype ?u = s_dtype ?u"
    by blast
  have "s_dtype ?u = UInt64"
    by (simp add: int_column_def)
  with r(1) r(2) m u v show ?thesis
    by simp
qed

theorem infer_numeric_dtype_unsigned_counterexample:
  "kind (s_dtype (int_column UInt64 [18446744073709551615])) \<in> set ''iu'' \<and>
   infer_numeric_dtype (int_column UInt64 [18446744073709551615]) \<notin> set signed_types"
  by (simp add: infer_numeric_dtype_def int_column_def series_min_def series_max_def nan_ge_def nan_le_def
      signed_types_def)

section \<open>Properties of remove_duplicate_rows_by_columns and combine_dataframes\<close>

lemma duplicated_from_length: "length (duplicated_from seen ks) = length ks"
  by (induction ks arbitrary: seen) auto

lemma duplicated_from_nth:
  "i < length ks \<Longrightarrow> duplicated_from seen ks ! i = (ks ! i \<in> set seen \<union> set (take i ks))"
proof (induction ks arbitrary: seen i)
  case Nil
  then show ?case by simp
next
  case (Cons k ks)
  show ?case
  proof (cases i)
    case 0
    then show ?thesis by simp
  next
    case (Suc n)
    with Cons.prems have "n < length ks" by simp
    from Cons.IH [OF this, of "k # seen"] Suc show ?thesis
      by auto
  qed
qed

lemma row_key_differs:
  "(row_key df cs j \<noteq> row_key df cs i) = (\<exists>c\<in>set cs. cell df c j \<noteq> cell df c i)"
  by (auto simp: row_key_def)

lemma duplicated_from_first_occurrence:
  "map Not (duplicated_from [] (map (row_key df cs) [0..<n])) = map (first_occurrence df cs) [0..<n]"
proof (rule nth_equalityI)
  show "length (map Not (duplicated_from [] (map (row_key df cs) [0..<n]))) =
      length (map (first_occurrence df cs) [0..<n])"
    by (simp add: duplicated_from_length)
next
  fix i
  assume "i < length (map Not (duplicated_from [] (map (row_key df cs) [0..<n])))"
  then have i: "i < n"
    by (simp add: duplicated_from_length)
  then have t: "take i (map (row_key df cs) [0..<n]) = map (row_key df cs) [0..<i]"
    by (simp add: take_map)
  have "duplicated_from [] (map (row_key df cs) [0..<n]) ! i =
      (row_key df cs i \<in> row_key df cs ` {0..<i})"
    using i by (simp add: duplicated_from_nth t)
  also have "\<dots> = (\<exists>j<i. row_key df cs j = row_key df cs i)"
    by (auto simp: image_iff Bex_def)
  also have "\<dots> = (\<not> first_occurrence df cs i)"
    by (simp add: first_occurrence_def row_key_differs [symmetric])
  finally show "map Not (duplicated_from [] (map (row_key df cs) [0..<n])) ! i =
      map (first_occurrence df cs) [0..<n] ! i"
    using i by (simp add: duplicated_from_length)
qed

lemma people_labels: "column_labels people = [StrL ''a'', StrL ''b'']"
  by (simp add: people_def column_labels_def)

lemma people_not_empty: "\<not> df_empty people"
  by (simp add: people_def df_empty_def)

lemma no_rows_empty: "df_empty no_rows"
  by (simp add: no_rows_def df_empty_def)

text \<open>
  Claim C7, as the code has it. On a table that has at least one row and one column, with
  a column list that is not empty and names only columns of the table, the call returns
  \<open>None\<close> (no table) and the caller's table has been deduplicated in place: it keeps
  exactly the rows that are first occurrences on the listed columns, in order. On a
  table without rows or without columns the call returns a copy of the table, whatever
  the list holds, and leaves the table as it is. On a table that is not empty, a list
  naming a label that is not a column raises a KeyError and an empty list raises a
  ValueError.
\<close>

theorem remove_duplicate_rows_by_columns_in_place:
  "(\<not> df_empty df \<and> columns \<noteq> [] \<and> set columns \<subseteq> set (column_labels df) \<longrightarrow>
      remove_duplicate_rows_by_columns df columns =
        Inr (None, boolean_index df (map (first_occurrence df columns) [0..<shape0 df])))
   \<and> (df_empty df \<longrightarrow> remove_duplicate_rows_by_columns df columns = Inr (Some df, df))
   \<and> (\<not> df_empty df \<and> \<not> set columns \<subseteq> set (column_labels df) \<longrightarrow>
      (\<exists>ls. remove_duplicate_rows_by_columns df columns = Inl (KeyError ls)))
   \<and> (\<not> df_empty df \<and> columns = [] \<longrightarrow>
      (\<exists>msg. remove_duplicate_rows_by_columns df columns = Inl (ValueError msg)))"
  by (simp add: remove_duplicate_rows_by_columns_def drop_duplicates_def duplicated_def
      duplicated_from_first_occurrence)

theorem remove_duplicate_rows_by_columns_in_place_witness:
  "remove_duplicate_rows_by_columns people [StrL ''a''] =
     Inr (None, \<lparr>df_index = [IntL 0, IntL 2],
        df_columns = [(StrL ''a'', [Some 1, Some 2]), (StrL ''b'', [Some 5, Some 7])]\<rparr>) \<and>
   remove_duplicate_rows_by_columns no_rows [StrL ''a''] = Inr (Some no_rows, no_rows) \<and>
   (\<exists>ls. remove_duplicate_rows_by_columns people [StrL ''z''] = Inl (KeyError ls)) \<and>
   (\<exists>msg. remove_duplicate_rows_by_columns people [] = Inl (ValueError msg))"
proof -
  have a: "\<not> df_empty people \<and> [StrL ''a''] \<noteq> [] \<and> set [StrL ''a''] \<subseteq> set (column_labels people)"
    by (simp add: people_labels people_not_empty)
  have e: "df_empty no_rows"
    by (rule no_rows_empty)
  have z: "\<not> df_empty people \<and> \<not> set [StrL ''z''] \<subseteq> set (column_labels people)"
    by (simp add: people_labels people_not_empty)
  have n: "\<not> df_empty people \<and> ([] :: label list) = []"
    by (simp add: people_not_empty)
  have u: "[0..<shape0 people] = [0, 1, 2]"
    by (simp add: shape0_def people_def upt_rec)
  have f: "first_occurrence people [StrL ''a''] 0" "\<not> first_occurrence people [StrL ''a''] (Suc 0)"
    "first_occurrence people [StrL ''a''] 2"
    by (simp_all add: first_occurrence_def cell_def people_def All_less_Suc numeral_2_eq_2)
  have b: "boolean_index people [True, False, True] =
      \<lparr>df_index = [IntL 0, IntL 2],
        df_columns = [(StrL ''a'', [Some 1, Some 2]), (StrL ''b'', [Some 5, Some 7])]\<rparr>"
    by (simp add: boolean_index_def select_rows_def people_def)
  note ta = remove_duplicate_rows_by_columns_in_place [of people "[StrL ''a'']"]
  note te = remove_duplicate_rows_by_columns_in_place [of no_rows "[StrL ''a'']"]
  note tz = remove_duplicate_rows_by_columns_in_place [of people "[StrL ''z'']"]
  note tn = remove_duplicate_rows_by_columns_in_place [of people "[]"]
  have 1: "remove_duplicate_rows_by_columns people [StrL ''a''] =
      Inr (None, boolean_index people (map (first_occurrence people [StrL ''a'']) [0..<shape0 people]))"
    by (rule ta [THEN conjunct1, THEN mp, OF a])
  have 2: "remove_duplicate_rows_by_columns no_rows [StrL ''a''] = Inr (Some no_rows, no_rows)"
    by (rule te [THEN conjunct2, THEN conjunct1, THEN mp, OF e])
  have 3: "\<exists>ls. remove_duplicate_rows_by_columns people [StrL ''z''] = Inl (KeyError ls)"
    by (rule tz [THEN conjunct2, THEN conjunct2, THEN conjunct1, THEN mp, OF z])
  have 4: "\<exists>msg. remove_duplicate_rows_by_columns people [] = Inl (ValueError msg)"
    by (rule tn [THEN conjunct2, THEN conjunct2, THEN conjunct2, THEN mp, OF n])
  from 1 have "remove_duplicate_rows_by_columns people [StrL ''a''] =
     Inr (None, \<lparr>df_index = [IntL 0, IntL 2],
        df_columns = [(StrL ''a'', [Some 1, Some 2]), (StrL ''b'', [Some 5, Some 7])]\<rparr>)"
    by (simp add: u f b)
  with 2 3 4 show ?thesis
    by (intro conjI)
qed

theorem remove_duplicate_rows_by_columns_absent_column_counterexample:
  "remove_duplicate_rows_by_columns people [StrL ''z''] = Inl (KeyError [StrL ''z'']) \<and>
   remove_duplicate_rows_by_columns no_rows [StrL ''a''] = Inr (Some no_rows, no_rows)"
  by (simp add: remove_duplicate_rows_by_columns_def drop_duplicates_def duplicated_def people_labels
      people_not_empty no_rows_empty)

text \<open>
  Claim C8. \<open>combine_dataframes\<close> raises, without making a library call, exactly when the
  direction is horizontal and the join columns are absent (\<open>None\<close> or empty), or the
  direction is neither horizontal nor vertical; what it raises is a ValueError. When it
  does make a library call, that call is the concatenation for the vertical direction,
  or the merge on exactly the caller's non-empty join columns for the horizontal one:
  there is no merge without join columns.
\<close>

theorem combine_dataframes_configuration_errors:
  "((\<exists>e. combine_dataframes df1 df2 on how direction = Raise e) \<longleftrightarrow>
      (direction = ''horizontal'' \<and> absent on) \<or>
      (direction \<noteq> ''horizontal'' \<and> direction \<noteq> ''vertical''))
   \<and> (\<forall>e. combine_dataframes df1 df2 on how direction = Raise e \<longrightarrow> (\<exists>msg. e = ValueError msg))
   \<and> (\<forall>c. combine_dataframes df1 df2 on how direction = Return c \<longrightarrow>
        (direction = ''vertical'' \<and> c = Concat [df1, df2]) \<or>
        (direction = ''horizontal'' \<and> (\<exists>ls. ls \<noteq> [] \<and> on = Some ls \<and> c = Merge df1 df2 ls how)))"
  by (auto simp: combine_dataframes_def absent_def split: option.splits list.splits)

theorem combine_dataframes_configuration_errors_witness:
  "(\<exists>msg. combine_dataframes people people None ''outer'' ''horizontal'' = Raise (ValueError msg)) \<and>
   (\<exists>msg. combine_dataframes people people (Some [StrL ''a'']) ''outer'' ''diagonal'' =
      Raise (ValueError msg)) \<and>
   (\<nexists>e. combine_dataframes people people (Some [StrL ''a'']) ''outer'' ''horizontal'' = Raise e) \<and>
   (\<nexists>e. combine_dataframes people people None ''outer'' ''vertical'' = Raise e)"
proof -
  have raised: "\<exists>msg. r = Raise (ValueError msg)"
    if "(\<exists>e. r = Raise e) \<longleftrightarrow> True" and "\<forall>e. r = Raise e \<longrightarrow> (\<exists>msg. e = ValueError msg)"
    for r :: "rat outcome"
    using that by auto
  have a: "absent None" "\<not> absent (Some [StrL ''a''])"
    by (simp_all add: absent_def)
  note t1 = combine_dataframes_configuration_errors [of people people None "''outer''" "''horizontal''"]
  note t2 = combine_dataframes_configuration_errors
    [of people people "Some [StrL ''a'']" "''outer''" "''diagonal''"]
  note t3 = combine_dataframes_configuration_errors
    [of people people "Some [StrL ''a'']" "''outer''" "''horizontal''"]
  note t4 = combine_dataframes_configuration_errors [of people people None "''outer''" "''vertical''"]
  have 1: "\<exists>msg. combine_dataframes people people None ''outer'' ''horizontal'' = Raise (ValueError msg)"
    by (rule raised) (use t1 a in simp_all)
  have 2: "\<exists>msg. combine_dataframes people people (Some [StrL ''a'']) ''outer'' ''diagonal'' =
      Raise (ValueError msg)"
    by (rule raised) (use t2 a in simp_all)
  have 3: "\<nexists>e. combine_dataframes people people (Some [StrL ''a'']) ''outer'' ''horizontal'' = Raise e"
    using t3 a by simp
  have 4: "\<nexists>e. combine_dataframes people people None ''outer'' ''vertical'' = Raise e"
    using t4 a by simp
  from 1 2 3 4 show ?thesis
    by (intro conjI)
qed

section \<open>Properties of fill_na_forward_or_backward\<close>

lemma ffill_from_length: "length (ffill_from p s) = length s"
  by (induction p s rule: ffill_from.induct) auto

lemma last_valid_snoc:
  "last_valid (cs @ [c]) = (case c of None \<Rightarrow> last_valid cs | Some v \<Rightarrow> Some v)"
  by (induction cs) (auto split: option.splits)

lemma ffill_from_nth:
  "i < length s \<Longrightarrow>
     ffill_from p s ! i = (case last_valid (take (Suc i) s) of None \<Rightarrow> p | Some v \<Rightarrow> Some v)"
proof (induction p s arbitrary: i rule: ffill_from.induct)
  case (1 prev)
  then show ?case by simp
next
  case (2 prev cs)
  then show ?case
    by (cases i) (auto split: option.splits)
next
  case (3 prev v cs)
  then show ?case
    by (cases i) (auto split: option.splits)
qed

lemma last_valid_index:
  "last_valid cs = Some v \<longleftrightarrow>
     (\<exists>j<length cs. cs ! j = Some v \<and> (\<forall>k. j < k \<and> k < length cs \<longrightarrow> cs ! k = None))"
proof (induction cs rule: rev_induct)
  case Nil
  then show ?case by simp
next
  case (snoc c cs)
  show ?case
  proof (cases c)
    case None
    have "(\<exists>j<length (cs @ [c]). (cs @ [c]) ! j = Some v \<and>
            (\<forall>k. j < k \<and> k < length (cs @ [c]) \<longrightarrow> (cs @ [c]) ! k = None)) \<longleftrightarrow>
          (\<exists>j<length cs. cs ! j = Some v \<and> (\<forall>k. j < k \<and> k < length cs \<longrightarrow> cs ! k = None))"
      using None by (auto simp: nth_append less_Suc_eq)
    with snoc None show ?thesis
      by (simp add: last_valid_snoc)
  next
    case (Some w)
    have "(\<exists>j<length (cs @ [c]). (cs @ [c]) ! j = Some v \<and>
            (\<forall>k. j < k \<and> k < length (cs @ [c]) \<longrightarrow> (cs @ [c]) ! k = None)) \<longleftrightarrow> w = v"
    proof
      assume "\<exists>j<length (cs @ [c]). (cs @ [c]) ! j = Some v \<and>
            (\<forall>k. j < k \<and> k < length (cs @ [c]) \<longrightarrow> (cs @ [c]) ! k = None)"
      then obtain j where j: "j < length (cs @ [c])" "(cs @ [c]) ! j = Some v"
        "\<forall>k. j < k \<and> k < length (cs @ [c]) \<longrightarrow> (cs @ [c]) ! k = None"
        by blast
      have "j = length cs"
      proof (rule ccontr)
        assume "j \<noteq> length cs"
        with j(1) have "j < length cs" by simp
        with j(3) have "(cs @ [c]) ! length cs = None"
          by (auto dest!: spec [of _ "length cs"])
        with Some show False by simp
      qed
      with j(2) Some show "w = v" by simp
    next
      assume "w = v"
      with Some show "\<exists>j<length (cs @ [c]). (cs @ [c]) ! j = Some v \<and>
            (\<forall>k. j < k \<and> k < length (cs @ [c]) \<longrightarrow> (cs @ [c]) ! k = None)"
        by (intro exI [of _ "length cs"]) auto
    qed
    with Some show ?thesis
      by (simp add: last_valid_snoc)
  qed
qed

lemma ffill_nth:
  assumes "i < length s"
  shows "ffill s ! i = Some v \<longleftrightarrow>
     (\<exists>j\<le>i. s ! j = Some v \<and> (\<forall>k. j < k \<and> k \<le> i \<longrightarrow> s ! k = None))"
proof -
  have l: "length (take (Suc i) s) = Suc i"
    using assms by simp
  have "ffill s ! i = last_valid (take (Suc i) s)"
    using assms by (simp add: ffill_def ffill_from_nth split: option.splits)
  then have "ffill s ! i = Some v \<longleftrightarrow>
     (\<exists>j<Suc i. take (Suc i) s ! j = Some v \<and>
        (\<forall>k. j < k \<and> k < Suc i \<longrightarrow> take (Suc i) s ! k = None))"
    by (simp only: last_valid_index l)
  also have "\<dots> \<longleftrightarrow> (\<exists>j\<le>i. s ! j = Some v \<and> (\<forall>k. j < k \<and> k \<le> i \<longrightarrow> s ! k = None))"
    by (auto simp: less_Suc_eq_le)
  finally show ?thesis .
qed

lemma bfill_nth:
  assumes "i < length s"
  shows "bfill s ! i = Some v \<longleftrightarrow>
     (\<exists>j\<ge>i. j < length s \<and> s ! j = Some v \<and> (\<forall>k. i \<le> k \<and> k < j \<longrightarrow> s ! k = None))"
proof -
  let ?n = "length s"
  let ?i = "?n - Suc i"
  have r: "rev s ! m = s ! (?n - Suc m)" if "m < ?n" for m
    using that by (simp add: rev_nth)
  have i': "?i < length (rev s)"
    using assms by simp
  have "bfill s ! i = ffill (rev s) ! ?i"
    using assms by (simp add: bfill_def ffill_def rev_nth ffill_from_length)
  then have "bfill s ! i = Some v \<longleftrightarrow>
      (\<exists>j\<le>?i. rev s ! j = Some v \<and> (\<forall>k. j < k \<and> k \<le> ?i \<longrightarrow> rev s ! k = None))"
    using ffill_nth [OF i'] by simp
  also have "\<dots> \<longleftrightarrow>
      (\<exists>j\<ge>i. j < ?n \<and> s ! j = Some v \<and> (\<forall>k. i \<le> k \<and> k < j \<longrightarrow> s ! k = None))"
  proof
    assume "\<exists>j\<le>?i. rev s ! j = Some v \<and> (\<forall>k. j < k \<and> k \<le> ?i \<longrightarrow> rev s ! k = None)"
    then obtain j where j: "j \<le> ?i" "rev s ! j = Some v"
      and none: "\<And>k. j < k \<Longrightarrow> k \<le> ?i \<Longrightarrow> rev s ! k = None"
      by blast
    have jn: "j < ?n"
      using j(1) assms by simp
    have "s ! k = None" if "i \<le> k" "k < ?n - Suc j" for k
    proof -
      have "rev s ! (?n - Suc k) = None"
        using that jn by (intro none) auto
      moreover have "?n - Suc k < ?n" "?n - Suc (?n - Suc k) = k"
        using that by auto
      ultimately show ?thesis
        using r [of "?n - Suc k"] by simp
    qed
    moreover have "s ! (?n - Suc j) = Some v"
      using r [OF jn] j(2) by simp
    moreover have "i \<le> ?n - Suc j" "?n - Suc j < ?n"
      using j(1) assms by auto
    ultimately show "\<exists>j\<ge>i. j < ?n \<and> s ! j = Some v \<and> (\<forall>k. i \<le> k \<and> k < j \<longrightarrow> s ! k = None)"
      by blast
  next
    assume "\<exists>j\<ge>i. j < ?n \<and> s ! j = Some v \<and> (\<forall>k. i \<le> k \<and> k < j \<longrightarrow> s ! k = None)"
    then obtain j where j: "i \<le> j" "j < ?n" "s ! j = Some v"
      and none: "\<And>k. i \<le> k \<Longrightarrow> k < j \<Longrightarrow> s ! k = None"
      by blast
    have "rev s ! k = None" if "?n - Suc j < k" "k \<le> ?i" for k
    proof -
      have "k < ?n"
        using that assms by simp
      then have "rev s ! k = s ! (?n - Suc k)"
        by (rule r)
      also have "\<dots> = None"
        using that j assms by (intro none) auto
      finally show ?thesis .
    qed
    moreover have "rev s ! (?n - Suc j) = Some v"
      using r [of "?n - Suc j"] j by simp
    moreover have "?n - Suc j \<le> ?i"
      using j by simp
    ultimately show "\<exists>j\<le>?i. rev s ! j = Some v \<and> (\<forall>k. j < k \<and> k \<le> ?i \<longrightarrow> rev s ! k = None)"
      by blast
  qed
  finally show ?thesis .
qed

text \<open>
  Claim C4. \<open>fill_na_forward_or_backward\<close> returns an error exactly when the method is
  neither \<open>ffill\<close> (forward) nor \<open>bfill\<close> (backward); the error is a ValueError that does
  not depend on the table. With \<open>ffill\<close> every column is forward filled and with \<open>bfill\<close>
  backward filled, the row index and the column labels staying as they are. In a forward
  filled column, slot \<open>i\<close> holds \<open>v\<close> exactly when \<open>v\<close> is the value of the nearest slot
  at or before \<open>i\<close> that is not missing; in a backward filled column, of the nearest slot
  at or after \<open>i\<close>. The sequence 1, missing, missing, 4 becomes 1, 1, 1, 4 forward and
  1, 4, 4, 4 backward.
\<close>

theorem fill_na_forward_or_backward_propagates:
  "((\<exists>e. fill_na_forward_or_backward df columns method = Inl e) \<longleftrightarrow>
      method \<notin> {''ffill'', ''bfill''})
   \<and> (\<forall>e. fill_na_forward_or_backward df columns method = Inl e \<longrightarrow>
        (\<exists>msg. e = ValueError msg) \<and>
        fill_na_forward_or_backward df' columns' method = Inl e)
   \<and> fill_na_forward_or_backward df columns ''ffill'' =
        Inr (df\<lparr>df_columns := map (\<lambda>c. (fst c, ffill (snd c))) (df_columns df)\<rparr>)
   \<and> fill_na_forward_or_backward df columns ''bfill'' =
        Inr (df\<lparr>df_columns := map (\<lambda>c. (fst c, bfill (snd c))) (df_columns df)\<rparr>)
   \<and> length (ffill s) = length s \<and> length (bfill s) = length s
   \<and> (\<forall>i<length s. \<forall>v. ffill s ! i = Some v \<longleftrightarrow>
        (\<exists>j\<le>i. s ! j = Some v \<and> (\<forall>k. j < k \<and> k \<le> i \<longrightarrow> s ! k = None)))
   \<and> (\<forall>i<length s. \<forall>v. bfill s ! i = Some v \<longleftrightarrow>
        (\<exists>j\<ge>i. j < length s \<and> s ! j = Some v \<and> (\<forall>k. i \<le> k \<and> k < j \<longrightarrow> s ! k = None)))
   \<and> ffill [Some (1::int), None, None, Some 4] = [Some 1, Some 1, Some 1, Some 4]
   \<and> bfill [Some (1::int), None, None, Some 4] = [Some 1, Some 4, Some 4, Some 4]"
proof (intro conjI)
  show "(\<exists>e. fill_na_forward_or_backward df columns method = Inl e) \<longleftrightarrow>
      method \<notin> {''ffill'', ''bfill''}"
    unfolding fill_na_forward_or_backward_def Let_def
    by (cases "method \<notin> {''ffill'', ''bfill''}")
      (simp_all only: if_True if_False sum.inject sum.distinct simp_thms)
  show "\<forall>e. fill_na_forward_or_backward df columns method = Inl e \<longrightarrow>
        (\<exists>msg. e = ValueError msg) \<and>
        fill_na_forward_or_backward df' columns' method = Inl e"
    unfolding fill_na_forward_or_backward_def Let_def
    by (cases "method \<notin> {''ffill'', ''bfill''}")
      (simp_all only: if_True if_False sum.inject sum.distinct simp_thms, rule exI, rule refl)
  show "fill_na_forward_or_backward df columns ''ffill'' =
        Inr (df\<lparr>df_columns := map (\<lambda>c. (fst c, ffill (snd c))) (df_columns df)\<rparr>)"
    by (simp add: fill_na_forward_or_backward_def fillna_method_def map_columns_def)
  show "fill_na_forward_or_backward df columns ''bfill'' =
        Inr (df\<lparr>df_columns := map (\<lambda>c. (fst c, bfill (snd c))) (df_columns df)\<rparr>)"
    by (simp add: fill_na_forward_or_backward_def fillna_method_def map_columns_def)
  show "length (ffill s) = length s"
    by (simp add: ffill_def ffill_from_length)
  show "length (bfill s) = length s"
    by (simp add: bfill_def ffill_from_length)
  show "\<forall>i<length s. \<forall>v. ffill s ! i = Some v \<longleftrightarrow>
        (\<exists>j\<le>i. s ! j = Some v \<and> (\<forall>k. j < k \<and> k \<le> i \<longrightarrow> s ! k = None))"
    by (intro allI impI) (rule ffill_nth)
  show "\<forall>i<length s. \<forall>v. bfill s ! i = Some v \<longleftrightarrow>
        (\<exists>j\<ge>i. j < length s \<and> s ! j = Some v \<and> (\<forall>k. i \<le> k \<and> k < j \<longrightarrow> s ! k = None))"
    by (intro allI impI) (rule bfill_nth)
  show "ffill [Some (1::int), None, None, Some 4] = [Some 1, Some 1, Some 1, Some 4]"
    by (simp add: ffill_def)
  show "bfill [Some (1::int), None, None, Some 4] = [Some 1, Some 4, Some 4, Some 4]"
    by (simp add: bfill_def)
qed



theorem fill_na_forward_or_backward_propagates_witness:
  "(\<exists>e. fill_na_forward_or_backward people None ''zfill'' = Inl e) \<and>
   ffill [Some (1::int), None, None, Some 4] ! 2 = Some 1 \<and>
   bfill [Some (1::int), None, None, Some 4] ! 1 = Some 4"
proof -
  let ?s = "[Some (1::int), None, None, Some 4]"
  note t = fill_na_forward_or_backward_propagates
    [of people None "''zfill''" people None ?s]
  have m: "''zfill'' \<notin> {''ffill'', ''bfill''}"
    by simp
  from t have t1: "(\<exists>e. fill_na_forward_or_backward people None ''zfill'' = Inl e) \<longleftrightarrow>
      ''zfill'' \<notin> {''ffill'', ''bfill''}"
    by (elim conjE)
  from t have tf: "\<forall>i<length ?s. \<forall>v. ffill ?s ! i = Some v \<longleftrightarrow>
        (\<exists>j\<le>i. ?s ! j = Some v \<and> (\<forall>k. j < k \<and> k \<le> i \<longrightarrow> ?s ! k = None))"
    by (elim conjE)
  from t have tb: "\<forall>i<length ?s. \<forall>v. bfill ?s ! i = Some v \<longleftrightarrow>
        (\<exists>j\<ge>i. j < length ?s \<and> ?s ! j = Some v \<and> (\<forall>k. i \<le> k \<and> k < j \<longrightarrow> ?s ! k = None))"
    by (elim conjE)
  have f: "\<exists>j\<le>2. ?s ! j = Some 1 \<and> (\<forall>k. j < k \<and> k \<le> 2 \<longrightarrow> ?s ! k = None)"
    by (intro exI [of _ 0]) (auto simp: nth_Cons' le_Suc_eq numeral_2_eq_2)
  have b: "\<exists>j\<ge>1. j < length ?s \<and> ?s ! j = Some 4 \<and> (\<forall>k. 1 \<le> k \<and> k < j \<longrightarrow> ?s ! k = None)"
    by (intro exI [of _ 3]) (auto simp: nth_Cons' less_Suc_eq numeral_3_eq_3)
  have l: "2 < length ?s" "1 < length ?s"
    by simp_all
  have 1: "\<exists>e. fill_na_forward_or_backward people None ''zfill'' = Inl e"
    by (rule iffD2 [OF t1 m])
  have 2: "ffill ?s ! 2 = Some 1"
    by (rule iffD2 [OF tf [rule_format, OF l(1)] f])
  have 3: "bfill ?s ! 1 = Some 4"
    by (rule iffD2 [OF tb [rule_format, OF l(2)] b])
  from 1 2 3 show ?thesis
    by (intro conjI)
qed

section \<open>Properties of remove_missing_columns and the fill methods\<close>

lemma ten_rows_labels:
  "column_labels ten_rows = [StrL ''a'']"
  "df_index ten_rows = [IntL 0, IntL 1, IntL 2, IntL 3, IntL 4, IntL 5, IntL 6, IntL 7, IntL 8, IntL 9]"
  "shape0 ten_rows = 10"
  by (simp_all add: ten_rows_def column_labels_def shape0_def)

lemma dropna_columns_ten_rows:
  "dropna_columns ten_rows t [StrL ''a''] = Inl (KeyError [StrL ''a''])"
  by (simp add: dropna_columns_def ten_rows_labels)

text \<open>
  Claim C1 at the specification's own example. The column \<open>a\<close> has three missing cells
  out of ten rows, and the rows are labelled 0 to 9. Whether the subset is given or left
  to default to all columns, at rate 0.5 and at rate 0.2, the call does not return a
  table: the column label \<open>a\<close> is looked up among the row labels and a KeyError is
  raised.
\<close>

theorem remove_missing_columns_subset_is_row_labels:
  "remove_missing_columns ten_rows (Some [StrL ''a'']) (1 / 2) = Inl (KeyError [StrL ''a'']) \<and>
   remove_missing_columns ten_rows (Some [StrL ''a'']) (1 / 5) = Inl (KeyError [StrL ''a'']) \<and>
   remove_missing_columns ten_rows None (1 / 2) = Inl (KeyError [StrL ''a''])"
  by (simp add: remove_missing_columns_def py_or_def ten_rows_labels dropna_columns_ten_rows)

text \<open>
  Where the labels of the subset do happen to be row labels, the threshold is the
  truncated product: with three rows and rate 0.5 it is 1, not 1.5, and a column with
  one value in three cells is kept.
\<close>

lemma positions_three:
  "positions [IntL 0, IntL 1, IntL 2] (IntL 0) = [0]"
  "positions [IntL 0, IntL 1, IntL 2] (IntL 1) = [1]"
  "positions [IntL 0, IntL 1, IntL 2] (IntL 2) = [2]"
  by (simp_all add: positions_def upt_rec numeral_3_eq_3 numeral_2_eq_2)

lemma remove_missing_columns_threshold_truncated:
  "remove_missing_columns three_by_three None (1 / 2) =
     Inr \<lparr>df_index = [IntL 0, IntL 1, IntL 2],
          df_columns = [(IntL 0, [Some 1, None, None]), (IntL 1, [Some 1, Some 2, Some 3])]\<rparr>"
  by (simp add: remove_missing_columns_def py_or_def three_by_three_def column_labels_def shape0_def
      py_int_def dropna_columns_def positions_three loc_columns_def count_valid_def numeral_2_eq_2)

text \<open>The rate check and the no-op at rate 1 are as the specification says.\<close>

lemma remove_missing_columns_rate_checks:
  "max_missing_rate < 0 \<or> 1 < max_missing_rate \<Longrightarrow>
     \<exists>msg. remove_missing_columns df columns max_missing_rate = Inl (ValueError msg)"
  "remove_missing_columns df columns 1 = Inr df"
  by (auto simp: remove_missing_columns_def)

lemma two_columns_labels:
  "column_labels two_columns = [StrL ''a'', StrL ''b'']"
  by (simp add: two_columns_def column_labels_def)

lemma fill_na_by_statistics_mean_two_columns:
  "fill_na_by_statistics two_columns cols ''mean'' =
     Inr \<lparr>df_index = [IntL 0, IntL 1, IntL 2],
          df_columns = [(StrL ''a'', [Some 1, Some 2, Some 3]), (StrL ''b'', [Some 3, Some 2, Some 4])]\<rparr>"
  by (simp add: fill_na_by_statistics_def fillna_series_def two_columns_def series_mean_def
      valid_values_def fill_cells_def)

text \<open>
  Claim C3 on the code. No fill method uses its column subset: the result for any subset
  is the result for no subset at all. With the subset \<open>a\<close> alone, the constant fill and
  the mean fill both write into column \<open>b\<close>.
\<close>

theorem fill_methods_ignore_column_subset:
  "fill_na_by_custom_value df columns val = fill_na_by_custom_value df None val \<and>
   fill_na_by_statistics sdf columns method = fill_na_by_statistics sdf None method \<and>
   fill_na_by_interpolate interpolate df columns method = fill_na_by_interpolate interpolate df None method \<and>
   fill_na_forward_or_backward df columns method = fill_na_forward_or_backward df None method \<and>
   fill_na_by_custom_value two_columns (Some [StrL ''a'']) (Some 0) =
     Inr \<lparr>df_index = [IntL 0, IntL 1, IntL 2],
          df_columns = [(StrL ''a'', [Some 1, Some 0, Some 3]), (StrL ''b'', [Some 0, Some 2, Some 4])]\<rparr> \<and>
   fill_na_by_statistics two_columns (Some [StrL ''a'']) ''mean'' =
     Inr \<lparr>df_index = [IntL 0, IntL 1, IntL 2],
          df_columns = [(StrL ''a'', [Some 1, Some 2, Some 3]), (StrL ''b'', [Some 3, Some 2, Some 4])]\<rparr>"
proof (intro conjI)
  show "fill_na_by_custom_value df columns val = fill_na_by_custom_value df None val"
    by (simp only: fill_na_by_custom_value_def Let_def)
  show "fill_na_by_statistics sdf columns method = fill_na_by_statistics sdf None method"
    by (simp only: fill_na_by_statistics_def Let_def)
  show "fill_na_by_interpolate interpolate df columns method =
      fill_na_by_interpolate interpolate df None method"
    by (simp only: fill_na_by_interpolate_def Let_def)
  show "fill_na_forward_or_backward df columns method = fill_na_forward_or_backward df None method"
    by (simp only: fill_na_forward_or_backward_def Let_def)
  show "fill_na_by_custom_value two_columns (Some [StrL ''a'']) (Some 0) =
     Inr \<lparr>df_index = [IntL 0, IntL 1, IntL 2],
          df_columns = [(StrL ''a'', [Some 1, Some 0, Some 3]), (StrL ''b'', [Some 0, Some 2, Some 4])]\<rparr>"
    by (simp add: fill_na_by_custom_value_def fillna_value_def map_columns_def two_columns_def)
  show "fill_na_by_statistics two_columns (Some [StrL ''a'']) ''mean'' =
     Inr \<lparr>df_index = [IntL 0, IntL 1, IntL 2],
          df_columns = [(StrL ''a'', [Some 1, Some 2, Some 3]), (StrL ''b'', [Some 3, Some 2, Some 4])]\<rparr>"
    by (rule fill_na_by_statistics_mean_two_columns)
qed

lemma rolling_transform_raises: "rolling_transform r method \<noteq> Inr other"
  by (cases r) (simp add: rolling_transform_def)

lemma fill_na_by_rolling_raises:
  "fill_na_by_rolling df columns method window_size center \<noteq> Inr result"
proof (cases "method \<notin> {''mean'', ''median'', ''mode''}")
  case True
  then show ?thesis
    unfolding fill_na_by_rolling_def by (simp only: if_True sum.distinct simp_thms)
next
  case False
  then show ?thesis
    unfolding fill_na_by_rolling_def Let_def
    by (simp only: if_False) (simp add: rolling_transform_raises split: sum.splits)
qed

text \<open>
  Claim C5 on the code. \<open>fill_na_by_rolling\<close> returns no table on any input: after the
  method check and the column selection it asks the rolling window for \<open>transform\<close>,
  which the window does not have. On the column 1, missing, 3 with the default window,
  the rolling fill raises an AttributeError where the statistic fill returns 1, 2, 3.
\<close>

theorem fill_na_by_rolling_differs_from_statistics:
  "(\<forall>result. fill_na_by_rolling df columns method window_size center \<noteq> Inr result) \<and>
   fill_na_by_rolling two_columns (Some [StrL ''a'']) ''mean'' None False =
     Inl (AttributeError ''Rolling object has no attribute transform'') \<and>
   fill_na_by_statistics two_columns (Some [StrL ''a'']) ''mean'' =
     Inr \<lparr>df_index = [IntL 0, IntL 1, IntL 2],
          df_columns = [(StrL ''a'', [Some 1, Some 2, Some 3]), (StrL ''b'', [Some 3, Some 2, Some 4])]\<rparr>"
proof (intro conjI allI)
  show "fill_na_by_rolling df columns method window_size center \<noteq> Inr result" for result
    by (rule fill_na_by_rolling_raises)
  show "fill_na_by_rolling two_columns (Some [StrL ''a'']) ''mean'' None False =
     Inl (AttributeError ''Rolling object has no attribute transform'')"
    by (simp add: fill_na_by_rolling_def py_or_def getitem_columns_def two_columns_labels
        rolling_def rolling_transform_def)
  show "fill_na_by_statistics two_columns (Some [StrL ''a'']) ''mean'' =
     Inr \<lparr>df_index = [IntL 0, IntL 1, IntL 2],
          df_columns = [(StrL ''a'', [Some 1, Some 2, Some 3]), (StrL ''b'', [Some 3, Some 2, Some 4])]\<rparr>"
    by (rule fill_na_by_statistics_mean_two_columns)
qed

section \<open>Properties of convert_data_type\<close>








lemma people_map_of:
  "map_of (df_columns people) (StrL ''a'') = Some [Some 1, Some 1, Some 2]"
  "map_of (df_columns people) (StrL ''b'') = Some [Some 5, None, Some 7]"
  "map_of (df_columns people) (StrL ''z'') = None"
  by (simp_all add: people_def)




text \<open>
  The targets \<open>int\<close> and \<open>float\<close> are outside that statement. There, a cast that returns a
  column with at least one cell is followed by the cell-wise call of
  \<open>infer_numeric_dtype\<close>, which raises an AttributeError that the loop does not catch.
\<close>

lemma series_apply_infer_numeric_dtype_cell:
  "t \<noteq> [] \<Longrightarrow>
     series_apply infer_numeric_dtype_cell t = Inl (AttributeError ''object has no attribute dtype'')"
  by (cases t) (simp_all add: infer_numeric_dtype_cell_def)

lemma convert_series_int_float_raises:
  assumes "dtype \<in> {''int'', ''float''}" and "astype pd dtype s = Inr t" and "t \<noteq> []"
  shows "convert_series pd dtype s = Inl (AttributeError ''object has no attribute dtype'')"
proof -
  have y: "(dtype \<in> {''int'', ''float''}) = True"
    using assms(1) by (rule eqTrueI)
  show ?thesis
    by (simp only: convert_series_def y if_True assms(2) sum.case
        series_apply_infer_numeric_dtype_cell [OF assms(3)])
qed

lemma convert_data_type_int_raises:
  "convert_data_type sample_pandas people [StrL ''a'', StrL ''b''] ''int'' =
     (Inl (AttributeError ''object has no attribute dtype''), [])"
  by (simp add: convert_column_def getitem_def people_map_of convert_series_def sample_pandas_def
      infer_numeric_dtype_cell_def)

end
